theory Spec2Isabelle
  imports Main "HOL-Library.Word"
begin

unbundle bit_operations_syntax

section \<open>NFC vinyl jukebox: DFPlayer Mini command frames and the tag polling loop\<close>

text \<open>
  A shallow embedding of \<^verbatim>\<open>src/main.py\<close>. Python integers are unbounded, so they are
  \<open>int\<close>; \<open>>>\<close> is \<open>drop_bit\<close> and \<open>&\<close> is \<open>AND\<close> on \<open>int\<close> (both
  two's complement, as in Python). A \<^verbatim>\<open>bytes\<close> object is a list of 8-bit words.
  What the program does to the outside world (UART writes, sleeps, console output, polls
  of the reader) is recorded as a list of effects in the order in which they happen.
\<close>

subsection \<open>Data\<close>

type_synonym byte = "8 word"
type_synonym bytes = "byte list"

text \<open>The exceptions the modelled code can raise.\<close>

datatype error = ValueError

text \<open>An argument of \<^verbatim>\<open>print\<close>: a string or an integer.\<close>

datatype pyval = PStr string | PInt int

text \<open>
  Effects, in program order. Durations are in milliseconds: \<^verbatim>\<open>time.sleep(0.3)\<close> is
  \<open>Sleep 300\<close> and \<^verbatim>\<open>read_passive_target(timeout=0.5)\<close> is \<open>ReadPassiveTarget 500\<close>.
\<close>

datatype effect =
    UartWrite bytes
  | Sleep nat
  | Print "pyval list"
  | ReadPassiveTarget nat

text \<open>
  A statement sequence that returns nothing: the effects it performed, and the exception
  that ended it, if any. Effects performed before an exception stay performed.
\<close>

type_synonym action = "effect list \<times> error option"

definition then_do :: "action \<Rightarrow> action \<Rightarrow> action" where
  "then_do a b =
     (case snd a of
        Some e \<Rightarrow> a
      | None \<Rightarrow> (fst a @ fst b, snd b))"

subsection \<open>The DFPlayer Mini driver\<close>

text \<open>
  \<^verbatim>\<open>bytes([...])\<close> of a list of integers: \<^verbatim>\<open>ValueError\<close> unless every element is in
  \<^verbatim>\<open>range(0, 256)\<close>.
\<close>

definition bytes_of :: "int list \<Rightarrow> error + bytes" where
  "bytes_of xs =
     (if list_all (\<lambda>x. 0 \<le> x \<and> x < 256) xs then Inr (map word_of_int xs)
      else Inl ValueError)"

text \<open>Lines 64 to 85 of \<^verbatim>\<open>DFPlayerMini._send_command\<close>: the frame that is built.\<close>

definition command_frame :: "int \<Rightarrow> int \<Rightarrow> error + bytes" where
  "command_frame cmd param =
     (let version = 0xFF;
          length = 0x06;
          feedback = 0x00;
          high = drop_bit 8 param AND 0xFF;
          low = param AND 0xFF;
          checksum = 0xFFFF - (version + length + cmd + feedback + high + low) + 1;
          cs_high = drop_bit 8 checksum AND 0xFF;
          cs_low = checksum AND 0xFF
      in bytes_of [0x7E, version, length, cmd, feedback, high, low, cs_high, cs_low, 0xEF])"

text \<open>\<^verbatim>\<open>DFPlayerMini._send_command\<close>: build the frame and write it to the UART.\<close>

definition send_command :: "int \<Rightarrow> int \<Rightarrow> action" where
  "send_command cmd param =
     (case command_frame cmd param of
        Inl e \<Rightarrow> ([], Some e)
      | Inr frame \<Rightarrow> ([UartWrite frame], None))"

definition reset :: action where
  "reset = then_do (send_command 0x0C 0) ([Sleep 1500], None)"

definition set_volume :: "int \<Rightarrow> action" where
  "set_volume level0 =
     (let level = (if level0 < 0 then 0 else level0);
          level = (if level > 30 then 30 else level)
      in then_do (send_command 0x06 level) ([Sleep 100], None))"

definition play_track :: "int \<Rightarrow> action" where
  "play_track track_number0 =
     (let track_number = (if track_number0 < 1 then 1 else track_number0)
      in send_command 0x03 track_number)"

subsection \<open>Configuration and start-up\<close>

definition DEFAULT_VOLUME :: int where
  "DEFAULT_VOLUME = 20"

text \<open>
  \<^verbatim>\<open>TAG_TO_TRACK\<close>, the dictionary from a tag's UID (as a hex string) to a track number.
  The repository ships it empty, to be filled in by the user, so the loop below takes the
  table as a parameter.
\<close>

type_synonym track_map = "string \<rightharpoonup> int"

definition TAG_TO_TRACK :: track_map where
  "TAG_TO_TRACK = Map.empty"

text \<open>\<^verbatim>\<open>init_dfplayer\<close>, after the UART has been opened.\<close>

definition init_dfplayer :: action where
  "init_dfplayer =
     then_do ([Print [PStr ''Initializing DFPlayer Mini over UART...''], Sleep 1000], None)
       (then_do reset
         (then_do (set_volume DEFAULT_VOLUME)
           ([Print [PStr ''DFPlayer ready at volume'', PInt DEFAULT_VOLUME]], None)))"

subsection \<open>The polling loop\<close>

text \<open>A tag's UID, as the reader returns it: a byte string.\<close>

type_synonym uid = bytes

definition hex_digit :: "nat \<Rightarrow> char" where
  "hex_digit n = ''0123456789ABCDEF'' ! n"

text \<open>\<^verbatim>\<open>"{:02X}".format(b)\<close> for a byte: two upper-case hex digits.\<close>

definition format_02X :: "byte \<Rightarrow> string" where
  "format_02X b = [hex_digit (unat b div 16), hex_digit (unat b mod 16)]"

definition uid_bytes_to_hex :: "uid \<Rightarrow> string" where
  "uid_bytes_to_hex uid_bytes = concat (map format_02X uid_bytes)"

text \<open>
  What one iteration of the loop signals. \<open>TagArrived u\<close> is the branch "New card
  detected" (lines 194 to 207) taken for the UID \<open>u\<close>; \<open>TagRemoved l\<close> is the branch
  that prints "Tag removed." and clears \<^verbatim>\<open>last_uid\<close> (lines 185 to 187), \<open>l\<close> being the
  UID that \<^verbatim>\<open>last_uid\<close> held.
\<close>

datatype event = TagArrived uid | TagRemoved uid

text \<open>
  The outcome of running the loop for a while: the value of \<^verbatim>\<open>last_uid\<close> afterwards,
  the events signalled, the effects performed, and the exception that ended the run, if
  any.
\<close>

record outcome =
  last_uid :: "uid option"
  events :: "event list"
  effects :: "effect list"
  raised :: "error option"

text \<open>
  One iteration of \<^verbatim>\<open>while True\<close> in \<^verbatim>\<open>main\<close> (lines 180 to 207). The reader is
  outside the program: what \<^verbatim>\<open>read_passive_target\<close> returned in this iteration is the
  argument \<open>uid\<close>. A \<^verbatim>\<open>continue\<close> ends the iteration at once.
\<close>

definition main_loop_body :: "track_map \<Rightarrow> uid option \<Rightarrow> uid option \<Rightarrow> outcome" where
  "main_loop_body tbl prev uid =
     (case uid of
        None \<Rightarrow>
          (case prev of
             None \<Rightarrow>
               \<lparr>last_uid = None, events = [], effects = [ReadPassiveTarget 500],
                raised = None\<rparr>
           | Some l \<Rightarrow>
               \<lparr>last_uid = None, events = [TagRemoved l],
                effects = [ReadPassiveTarget 500, Print [PStr ''Tag removed.'']],
                raised = None\<rparr>)
      | Some u \<Rightarrow>
          if prev \<noteq> None \<and> Some u = prev then
            \<lparr>last_uid = prev, events = [], effects = [ReadPassiveTarget 500],
             raised = None\<rparr>
          else
            let uid_str = uid_bytes_to_hex u;
                detected = [ReadPassiveTarget 500,
                            Print [PStr ''Tag detected, UID ='', PStr uid_str]];
                handled =
                  (case tbl uid_str of
                     None \<Rightarrow>
                       ([Print [PStr ''No track mapped for this UID yet. Add it to TAG_TO_TRACK.'']],
                        None)
                   | Some track \<Rightarrow>
                       then_do ([Print [PStr ''Playing track'', PInt track]], None)
                         (play_track track));
                whole = then_do (detected, None) (then_do handled ([Sleep 300], None))
            in \<lparr>last_uid = Some u, events = [TagArrived u], effects = fst whole,
                raised = snd whole\<rparr>)"

text \<open>
  The loop, run on the results of the first polls of the reader, starting with
  \<^verbatim>\<open>last_uid\<close> equal to \<open>prev\<close>. The loop itself never ends; the run stops when the
  listed polls are used up, or earlier at an exception.
\<close>

fun main_loop :: "track_map \<Rightarrow> uid option \<Rightarrow> uid option list \<Rightarrow> outcome" where
  "main_loop tbl prev [] =
     \<lparr>last_uid = prev, events = [], effects = [], raised = None\<rparr>"
| "main_loop tbl prev (uid # polls) =
     (let it = main_loop_body tbl prev uid in
      case raised it of
        Some e \<Rightarrow> it
      | None \<Rightarrow>
          (let rest = main_loop tbl (last_uid it) polls in
           \<lparr>last_uid = last_uid rest, events = events it @ events rest,
            effects = effects it @ effects rest, raised = raised rest\<rparr>))"

text \<open>The frames written to the UART, in order.\<close>

fun uart_frames :: "effect list \<Rightarrow> bytes list" where
  "uart_frames [] = []"
| "uart_frames (UartWrite f # es) = f # uart_frames es"
| "uart_frames (e # es) = uart_frames es"

text \<open>The UIDs of the arrivals among the events, in order.\<close>

fun arrivals :: "event list \<Rightarrow> uid list" where
  "arrivals [] = []"
| "arrivals (TagArrived u # es) = u # arrivals es"
| "arrivals (TagRemoved l # es) = arrivals es"

text \<open>The samples of a poll sequence in which a tag was seen.\<close>

fun seen :: "uid option list \<Rightarrow> uid list" where
  "seen [] = []"
| "seen (None # ps) = seen ps"
| "seen (Some u # ps) = u # seen ps"

section \<open>Properties\<close>

subsection \<open>Arithmetic of bytes\<close>

lemma and_255: "(x::int) AND 255 = x mod 256"
proof -
  have "take_bit 8 x = x AND mask 8" by (rule take_bit_eq_mask)
  moreover have "(mask 8 :: int) = 255" by (simp add: mask_eq_exp_minus_1)
  ultimately show ?thesis by (simp add: take_bit_eq_mod)
qed

lemma drop_bit_8: "drop_bit 8 (x::int) = x div 256"
  by (simp add: drop_bit_eq_div)

lemma uint_byte_mod: "uint (word_of_int x :: byte) = x mod 256"
  by (simp add: uint_word_of_int take_bit_eq_mod)

lemma split_16: "(c::int) div 256 mod 256 * 256 + c mod 256 = c mod 65536"
proof -
  have "c mod (256 * 256) = 256 * (c div 256 mod 256) + c mod 256"
    by (rule zmod_zmult2_eq) simp
  then show ?thesis by simp
qed

lemma command_frame_eq:
  assumes "0 \<le> cmd" "cmd < 256"
  shows "command_frame cmd param =
     Inr [0x7E, 0xFF, 0x06, word_of_int cmd, 0x00,
          word_of_int (param div 256 mod 256), word_of_int (param mod 256),
          word_of_int ((65536 - (261 + cmd + param div 256 mod 256 + param mod 256)) div 256 mod 256),
          word_of_int ((65536 - (261 + cmd + param div 256 mod 256 + param mod 256)) mod 256),
          0xEF]"
  using assms
  by (simp add: command_frame_def bytes_of_def Let_def and_255 drop_bit_8 algebra_simps)

lemma send_command_eq:
  assumes "0 \<le> cmd" "cmd < 256"
  shows "send_command cmd param =
     ([UartWrite [0x7E, 0xFF, 0x06, word_of_int cmd, 0x00,
          word_of_int (param div 256 mod 256), word_of_int (param mod 256),
          word_of_int ((65536 - (261 + cmd + param div 256 mod 256 + param mod 256)) div 256 mod 256),
          word_of_int ((65536 - (261 + cmd + param div 256 mod 256 + param mod 256)) mod 256),
          0xEF]], None)"
  by (simp add: send_command_def command_frame_eq [OF assms])

subsection \<open>The checksum\<close>

text \<open>
  C1. For every command code that fits a byte and every parameter (in particular every
  16-bit one), \<^verbatim>\<open>_send_command\<close> writes one ten-byte frame, and in it the six payload
  bytes (version, length, command, feedback, parameter high, parameter low) plus the
  16-bit checksum (checksum high times 256 plus checksum low) sum to 0 modulo 65536;
  equivalently, the emitted checksum is 0xFFFF minus the sum of the six payload bytes
  plus 1, truncated to 16 bits.
\<close>

theorem send_command_checksum:
  assumes "0 \<le> cmd" "cmd < 256"
  shows "\<exists>high low cs_high cs_low.
           send_command cmd param =
             ([UartWrite [0x7E, 0xFF, 0x06, word_of_int cmd, 0x00, high, low,
                          cs_high, cs_low, 0xEF]], None)
         \<and> (uint (0xFF :: byte) + uint (0x06 :: byte) + uint (word_of_int cmd :: byte)
              + uint (0x00 :: byte) + uint high + uint low
              + (uint cs_high * 256 + uint cs_low)) mod 65536 = 0
         \<and> uint cs_high * 256 + uint cs_low =
             (0xFFFF - (uint (0xFF :: byte) + uint (0x06 :: byte)
                        + uint (word_of_int cmd :: byte) + uint (0x00 :: byte)
                        + uint high + uint low) + 1) mod 65536"
proof -
  define hi where "hi = param div 256 mod 256"
  define lo where "lo = param mod 256"
  define c where "c = 65536 - (261 + cmd + hi + lo)"
  have hi: "0 \<le> hi" "hi < 256" and lo: "0 \<le> lo" "lo < 256"
    by (simp_all add: hi_def lo_def)
  have c: "0 \<le> c" "c < 65536"
    using assms hi lo by (simp_all add: c_def)
  have cs: "c div 256 mod 256 * 256 + c mod 256 = c"
    using c by (simp add: split_16)
  have cmd: "uint (word_of_int cmd :: byte) = cmd"
    using assms by (simp add: uint_byte_mod)
  have uhi: "uint (word_of_int hi :: byte) = hi" and ulo: "uint (word_of_int lo :: byte) = lo"
    using hi lo by (simp_all add: uint_byte_mod)
  have ucs: "uint (word_of_int (c div 256 mod 256) :: byte) * 256
              + uint (word_of_int (c mod 256) :: byte) = c"
    using cs by (simp add: uint_byte_mod)
  have frame: "send_command cmd param =
     ([UartWrite [0x7E, 0xFF, 0x06, word_of_int cmd, 0x00, word_of_int hi, word_of_int lo,
        word_of_int (c div 256 mod 256), word_of_int (c mod 256), 0xEF]], None)"
    unfolding hi_def lo_def c_def by (rule send_command_eq [OF assms])
  have sum0: "(uint (0xFF :: byte) + uint (0x06 :: byte) + uint (word_of_int cmd :: byte)
              + uint (0x00 :: byte) + uint (word_of_int hi :: byte) + uint (word_of_int lo :: byte)
              + (uint (word_of_int (c div 256 mod 256) :: byte) * 256
                  + uint (word_of_int (c mod 256) :: byte))) mod 65536 = 0"
    unfolding ucs cmd uhi ulo by (simp add: c_def)
  have eq: "uint (word_of_int (c div 256 mod 256) :: byte) * 256
              + uint (word_of_int (c mod 256) :: byte) =
             (0xFFFF - (uint (0xFF :: byte) + uint (0x06 :: byte)
                        + uint (word_of_int cmd :: byte) + uint (0x00 :: byte)
                        + uint (word_of_int hi :: byte) + uint (word_of_int lo :: byte)) + 1) mod 65536"
    unfolding ucs cmd uhi ulo using c by (simp add: c_def)
  show ?thesis
    by (intro exI conjI) (rule frame, rule sum0, rule eq)
qed

theorem send_command_checksum_witness:
  "\<exists>high low cs_high cs_low.
           send_command 3 3 =
             ([UartWrite [0x7E, 0xFF, 0x06, word_of_int 3, 0x00, high, low,
                          cs_high, cs_low, 0xEF]], None)
         \<and> (uint (0xFF :: byte) + uint (0x06 :: byte) + uint (word_of_int 3 :: byte)
              + uint (0x00 :: byte) + uint high + uint low
              + (uint cs_high * 256 + uint cs_low)) mod 65536 = 0
         \<and> uint cs_high * 256 + uint cs_low =
             (0xFFFF - (uint (0xFF :: byte) + uint (0x06 :: byte)
                        + uint (word_of_int 3 :: byte) + uint (0x00 :: byte)
                        + uint high + uint low) + 1) mod 65536"
  by (rule send_command_checksum [of 3 3]) simp_all

subsection \<open>The frames of the three commands\<close>

lemma uint_split_16:
  "uint (word_of_int (p div 256 mod 256) :: byte) * 256 + uint (word_of_int (p mod 256) :: byte)
     = p mod 65536"
  by (simp add: uint_byte_mod split_16)

lemma reset_eq:
  "reset = ([UartWrite [0x7E, 0xFF, 0x06, 0x0C, 0x00, 0x00, 0x00, 0xFE, 0xEF, 0xEF],
             Sleep 1500], None)"
  by (simp add: reset_def then_do_def send_command_eq [of "0x0C" 0])

lemma set_volume_eq:
  "set_volume level =
     ([UartWrite [0x7E, 0xFF, 0x06, 0x06, 0x00,
         word_of_int (max 0 (min 30 level) div 256 mod 256),
         word_of_int (max 0 (min 30 level) mod 256),
         word_of_int ((65536 - (261 + 6 + max 0 (min 30 level) div 256 mod 256
                                 + max 0 (min 30 level) mod 256)) div 256 mod 256),
         word_of_int ((65536 - (261 + 6 + max 0 (min 30 level) div 256 mod 256
                                 + max 0 (min 30 level) mod 256)) mod 256),
         0xEF], Sleep 100], None)"
proof -
  have clamp: "(if (if level < 0 then 0 else level) > 30 then 30
                else (if level < 0 then 0 else level)) = max 0 (min 30 level)"
    by (simp add: max_def min_def)
  show ?thesis
    unfolding set_volume_def Let_def clamp
    by (simp add: then_do_def send_command_eq [of "0x06"])
qed

lemma play_track_eq:
  "play_track n =
     ([UartWrite [0x7E, 0xFF, 0x06, 0x03, 0x00,
         word_of_int (max 1 n div 256 mod 256),
         word_of_int (max 1 n mod 256),
         word_of_int ((65536 - (261 + 3 + max 1 n div 256 mod 256 + max 1 n mod 256))
                        div 256 mod 256),
         word_of_int ((65536 - (261 + 3 + max 1 n div 256 mod 256 + max 1 n mod 256))
                        mod 256),
         0xEF]], None)"
proof -
  have clamp: "(if n < 1 then 1 else n) = max 1 n"
    by (simp add: max_def)
  show ?thesis
    unfolding play_track_def Let_def clamp
    by (simp add: send_command_eq [of "0x03"])
qed

text \<open>
  C2. Each of the three commands writes exactly one frame of ten bytes: 0x7E, the version
  0xFF, the length 0x06, the command code (0x0C for reset, 0x06 for set volume, 0x03 for
  play track), the feedback byte 0x00, the parameter's high byte and then its low byte,
  the two checksum bytes, and 0xEF. The parameter is 0 for reset, the level clamped to
  0..30 for set volume and the index raised to at least 1 for play track; the two
  parameter bytes hold its low 16 bits, big-endian, which is the parameter itself
  whenever it is below 65536.
\<close>

theorem frame_layout:
  "(\<exists>cs_high cs_low.
      reset = ([UartWrite [0x7E, 0xFF, 0x06, 0x0C, 0x00, 0x00, 0x00, cs_high, cs_low, 0xEF],
                Sleep 1500], None))
   \<and> (\<exists>high low cs_high cs_low.
        set_volume level =
          ([UartWrite [0x7E, 0xFF, 0x06, 0x06, 0x00, high, low, cs_high, cs_low, 0xEF],
            Sleep 100], None)
        \<and> uint high * 256 + uint low = max 0 (min 30 level))
   \<and> (\<exists>high low cs_high cs_low.
        play_track n =
          ([UartWrite [0x7E, 0xFF, 0x06, 0x03, 0x00, high, low, cs_high, cs_low, 0xEF]], None)
        \<and> uint high = max 1 n div 256 mod 256
        \<and> uint low = max 1 n mod 256
        \<and> uint high * 256 + uint low = max 1 n mod 65536)"
proof (intro conjI)
  show "\<exists>cs_high cs_low.
      reset = ([UartWrite [0x7E, 0xFF, 0x06, 0x0C, 0x00, 0x00, 0x00, cs_high, cs_low, 0xEF],
                Sleep 1500], None)"
    by (intro exI) (rule reset_eq)
next
  have v: "max 0 (min 30 level) mod 65536 = max 0 (min 30 level)"
    by (simp add: max_def min_def)
  show "\<exists>high low cs_high cs_low.
        set_volume level =
          ([UartWrite [0x7E, 0xFF, 0x06, 0x06, 0x00, high, low, cs_high, cs_low, 0xEF],
            Sleep 100], None)
        \<and> uint high * 256 + uint low = max 0 (min 30 level)"
    apply (intro exI conjI)
     apply (rule set_volume_eq)
    apply (simp only: uint_split_16 v)
    done
next
  show "\<exists>high low cs_high cs_low.
        play_track n =
          ([UartWrite [0x7E, 0xFF, 0x06, 0x03, 0x00, high, low, cs_high, cs_low, 0xEF]], None)
        \<and> uint high = max 1 n div 256 mod 256
        \<and> uint low = max 1 n mod 256
        \<and> uint high * 256 + uint low = max 1 n mod 65536"
    apply (intro exI conjI)
       apply (rule play_track_eq)
      apply (simp add: uint_byte_mod)
     apply (simp add: uint_byte_mod)
    apply (simp only: uint_split_16)
    done
qed

theorem frame_layout_witness:
  "(\<exists>cs_high cs_low.
      reset = ([UartWrite [0x7E, 0xFF, 0x06, 0x0C, 0x00, 0x00, 0x00, cs_high, cs_low, 0xEF],
                Sleep 1500], None))
   \<and> (\<exists>high low cs_high cs_low.
        set_volume 20 =
          ([UartWrite [0x7E, 0xFF, 0x06, 0x06, 0x00, high, low, cs_high, cs_low, 0xEF],
            Sleep 100], None)
        \<and> uint high * 256 + uint low = 20)
   \<and> (\<exists>high low cs_high cs_low.
        play_track 300 =
          ([UartWrite [0x7E, 0xFF, 0x06, 0x03, 0x00, high, low, cs_high, cs_low, 0xEF]], None)
        \<and> uint high = 1
        \<and> uint low = 44
        \<and> uint high * 256 + uint low = 300)"
  using frame_layout [of 20 300] by simp

subsection \<open>Clamping\<close>

text \<open>
  C9. Setting the volume to -5 writes the same frame as setting it to 0, and 99 the same
  as 30; playing track 0 writes the same frame as playing track 1. In general
  \<^verbatim>\<open>set_volume\<close> behaves as on the level clamped into 0..30, and the parameter it
  sends is that clamped level; \<^verbatim>\<open>play_track\<close> behaves as on the index raised to at
  least 1.
\<close>

theorem clamping:
  "set_volume (-5) = set_volume 0
   \<and> set_volume 99 = set_volume 30
   \<and> play_track 0 = play_track 1
   \<and> set_volume level = set_volume (max 0 (min 30 level))
   \<and> play_track n = play_track (max 1 n)
   \<and> (\<exists>high low cs_high cs_low.
        set_volume level =
          ([UartWrite [0x7E, 0xFF, 0x06, 0x06, 0x00, high, low, cs_high, cs_low, 0xEF],
            Sleep 100], None)
        \<and> uint high * 256 + uint low = max 0 (min 30 level)
        \<and> 0 \<le> uint high * 256 + uint low \<and> uint high * 256 + uint low \<le> 30)
   \<and> (\<exists>high low cs_high cs_low.
        play_track n =
          ([UartWrite [0x7E, 0xFF, 0x06, 0x03, 0x00, high, low, cs_high, cs_low, 0xEF]], None)
        \<and> uint high * 256 + uint low = max 1 n mod 65536)"
proof (intro conjI)
  show "set_volume (-5) = set_volume 0" by (simp add: set_volume_def)
  show "set_volume 99 = set_volume 30" by (simp add: set_volume_def)
  show "play_track 0 = play_track 1" by (simp add: play_track_def)
  show "set_volume level = set_volume (max 0 (min 30 level))"
    by (simp add: set_volume_def max_def min_def)
  show "play_track n = play_track (max 1 n)"
    by (simp add: play_track_def max_def)
next
  define hi :: byte where "hi = word_of_int (max 0 (min 30 level) div 256 mod 256)"
  define lo :: byte where "lo = word_of_int (max 0 (min 30 level) mod 256)"
  have v: "max 0 (min 30 level) mod 65536 = max 0 (min 30 level)"
    by (simp add: max_def min_def)
  have e: "uint hi * 256 + uint lo = max 0 (min 30 level)"
    unfolding hi_def lo_def by (simp only: uint_split_16 v)
  have lower: "0 \<le> uint hi * 256 + uint lo" and upper: "uint hi * 256 + uint lo \<le> 30"
    unfolding e by simp_all
  have f: "set_volume level =
      ([UartWrite [0x7E, 0xFF, 0x06, 0x06, 0x00, hi, lo,
         word_of_int ((65536 - (261 + 6 + max 0 (min 30 level) div 256 mod 256
                                 + max 0 (min 30 level) mod 256)) div 256 mod 256),
         word_of_int ((65536 - (261 + 6 + max 0 (min 30 level) div 256 mod 256
                                 + max 0 (min 30 level) mod 256)) mod 256),
         0xEF], Sleep 100], None)"
    unfolding hi_def lo_def by (rule set_volume_eq)
  show "\<exists>high low cs_high cs_low.
        set_volume level =
          ([UartWrite [0x7E, 0xFF, 0x06, 0x06, 0x00, high, low, cs_high, cs_low, 0xEF],
            Sleep 100], None)
        \<and> uint high * 256 + uint low = max 0 (min 30 level)
        \<and> 0 \<le> uint high * 256 + uint low \<and> uint high * 256 + uint low \<le> 30"
    by (intro exI conjI) (rule f, rule e, rule lower, rule upper)
next
  show "\<exists>high low cs_high cs_low.
        play_track n =
          ([UartWrite [0x7E, 0xFF, 0x06, 0x03, 0x00, high, low, cs_high, cs_low, 0xEF]], None)
        \<and> uint high * 256 + uint low = max 1 n mod 65536"
    apply (intro exI conjI)
     apply (rule play_track_eq)
    apply (simp only: uint_split_16)
    done
qed

theorem clamping_witness:
  "set_volume (-5) = set_volume 0
   \<and> set_volume 99 = set_volume 30
   \<and> play_track 0 = play_track 1
   \<and> set_volume 99 = set_volume (max 0 (min 30 99))
   \<and> play_track (-7) = play_track (max 1 (-7))
   \<and> (\<exists>high low cs_high cs_low.
        set_volume 99 =
          ([UartWrite [0x7E, 0xFF, 0x06, 0x06, 0x00, high, low, cs_high, cs_low, 0xEF],
            Sleep 100], None)
        \<and> uint high * 256 + uint low = max 0 (min 30 99)
        \<and> 0 \<le> uint high * 256 + uint low \<and> uint high * 256 + uint low \<le> 30)
   \<and> (\<exists>high low cs_high cs_low.
        play_track (-7) =
          ([UartWrite [0x7E, 0xFF, 0x06, 0x03, 0x00, high, low, cs_high, cs_low, 0xEF]], None)
        \<and> uint high * 256 + uint low = max 1 (-7) mod 65536)"
  by (rule clamping)

subsection \<open>Track numbers beyond 16 bits\<close>

text \<open>
  C10. For a track index above 65535, \<^verbatim>\<open>play_track\<close> raises nothing and does not
  clamp: it writes a frame whose parameter bytes are the index's bits 8 to 15 and bits 0 to
  7, so the index is sent reduced modulo 65536.
\<close>

theorem play_track_wraps:
  assumes "65535 < n"
  shows "\<exists>high low cs_high cs_low.
        play_track n =
          ([UartWrite [0x7E, 0xFF, 0x06, 0x03, 0x00, high, low, cs_high, cs_low, 0xEF]], None)
        \<and> uint high = n div 256 mod 256
        \<and> uint low = n mod 256
        \<and> uint high * 256 + uint low = n mod 65536"
proof -
  have n: "max 1 n = n" using assms by simp
  show ?thesis
    apply (intro exI conjI)
       apply (rule play_track_eq)
      apply (simp add: uint_byte_mod n)
     apply (simp add: uint_byte_mod n)
    apply (simp only: uint_split_16 n)
    done
qed

theorem play_track_wraps_witness:
  "(65535 :: int) < 70000 \<and>
   (\<exists>high low cs_high cs_low.
        play_track 70000 =
          ([UartWrite [0x7E, 0xFF, 0x06, 0x03, 0x00, high, low, cs_high, cs_low, 0xEF]], None)
        \<and> uint high = 17
        \<and> uint low = 112
        \<and> uint high * 256 + uint low = 4464)"
  using play_track_wraps [of 70000] by simp

section \<open>The polling loop\<close>

subsection \<open>One iteration, and a run of iterations\<close>

lemma play_track_raised: "snd (play_track n) = None"
  by (simp add: play_track_eq)

lemma play_track_frames: "\<exists>f. fst (play_track n) = [UartWrite f]"
  by (simp add: play_track_eq)

lemma body_raised: "raised (main_loop_body tbl prev uid) = None"
  by (simp add: main_loop_body_def Let_def then_do_def play_track_raised
      split: option.split)

lemma body_last_uid: "last_uid (main_loop_body tbl prev uid) = uid"
  by (auto simp add: main_loop_body_def Let_def split: option.split)

lemma body_events:
  "events (main_loop_body tbl prev uid) =
     (case uid of
        None \<Rightarrow> (case prev of None \<Rightarrow> [] | Some l \<Rightarrow> [TagRemoved l])
      | Some u \<Rightarrow> if prev = Some u then [] else [TagArrived u])"
  by (auto simp add: main_loop_body_def Let_def split: option.split)

lemma arrivals_append: "arrivals (xs @ ys) = arrivals xs @ arrivals ys"
  by (induction xs rule: arrivals.induct) simp_all

lemma main_loop_Cons:
  "main_loop tbl prev (uid # polls) =
     \<lparr>last_uid = last_uid (main_loop tbl uid polls),
      events = events (main_loop_body tbl prev uid) @ events (main_loop tbl uid polls),
      effects = effects (main_loop_body tbl prev uid) @ effects (main_loop tbl uid polls),
      raised = raised (main_loop tbl uid polls)\<rparr>"
  by (simp add: Let_def body_raised body_last_uid)

lemma main_loop_raised: "raised (main_loop tbl prev polls) = None"
  by (induction polls arbitrary: prev) (simp_all add: main_loop_Cons del: main_loop.simps(2))

lemma main_loop_last_uid:
  "last_uid (main_loop tbl prev polls) = (if polls = [] then prev else List.last polls)"
  by (induction polls arbitrary: prev) (simp_all add: main_loop_Cons del: main_loop.simps(2))

lemma main_loop_append:
  "events (main_loop tbl prev (xs @ ys)) =
     events (main_loop tbl prev xs) @ events (main_loop tbl (last_uid (main_loop tbl prev xs)) ys)"
  by (induction xs arbitrary: prev) (simp_all add: main_loop_Cons del: main_loop.simps(2))

lemma remdups_adj_hd: "remdups_adj (x # xs) = x # tl (remdups_adj (x # xs))"
  by (cases xs) auto

lemma tl_remdups_adj_Cons:
  "tl (remdups_adj (x # y # ys)) =
     (if x = y then tl (remdups_adj (y # ys)) else remdups_adj (y # ys))"
  by simp

lemma seen_remdups_adj_Cons:
  "seen (remdups_adj (x # xs)) =
     (case x of None \<Rightarrow> [] | Some u \<Rightarrow> [u]) @ seen (tl (remdups_adj (x # xs)))"
proof -
  obtain r where r: "remdups_adj (x # xs) = x # r"
    using remdups_adj_hd [of x xs] by blast
  show ?thesis
    unfolding r by (cases x) simp_all
qed

lemma arrivals_one_per_run:
  "arrivals (events (main_loop tbl prev polls)) = seen (tl (remdups_adj (prev # polls)))"
proof (induction polls arbitrary: prev)
  case Nil
  show ?case by simp
next
  case (Cons p ps)
  have ev: "arrivals (events (main_loop tbl prev (p # ps))) =
      arrivals (events (main_loop_body tbl prev p)) @ seen (tl (remdups_adj (p # ps)))"
    using Cons.IH [of p] by (simp add: main_loop_Cons arrivals_append del: main_loop.simps(2))
  have hd: "arrivals (events (main_loop_body tbl prev p)) =
      (if prev = p then [] else (case p of None \<Rightarrow> [] | Some u \<Rightarrow> [u]))"
    by (cases p; cases prev) (simp_all add: body_events)
  have rhs: "seen (tl (remdups_adj (prev # p # ps))) =
      (if prev = p then [] else (case p of None \<Rightarrow> [] | Some u \<Rightarrow> [u]))
        @ seen (tl (remdups_adj (p # ps)))"
    unfolding tl_remdups_adj_Cons by (simp add: seen_remdups_adj_Cons del: remdups_adj.simps)
  show ?case
    unfolding ev hd rhs by (rule refl)
qed

lemma replicate_run:
  "events (main_loop tbl prev (replicate n (Some a))) =
     (if n = 0 \<or> prev = Some a then [] else [TagArrived a])"
proof (induction n arbitrary: prev)
  case 0
  show ?case by simp
next
  case (Suc n)
  show ?case
    using Suc.IH [of "Some a"]
    by (simp add: main_loop_Cons body_events del: main_loop.simps(2))
qed

subsection \<open>The effects of one iteration\<close>

lemma body_effects_idle:
  "effects (main_loop_body tbl None None) = [ReadPassiveTarget 500]"
  by (simp add: main_loop_body_def)

lemma body_effects_removed:
  "effects (main_loop_body tbl (Some l) None) =
     [ReadPassiveTarget 500, Print [PStr ''Tag removed.'']]"
  by (simp add: main_loop_body_def)

lemma body_effects_same:
  "effects (main_loop_body tbl (Some u) (Some u)) = [ReadPassiveTarget 500]"
  by (simp add: main_loop_body_def)

lemma body_effects_unmapped:
  assumes "prev \<noteq> Some u" "tbl (uid_bytes_to_hex u) = None"
  shows "effects (main_loop_body tbl prev (Some u)) =
     [ReadPassiveTarget 500,
      Print [PStr ''Tag detected, UID ='', PStr (uid_bytes_to_hex u)],
      Print [PStr ''No track mapped for this UID yet. Add it to TAG_TO_TRACK.''],
      Sleep 300]"
  using assms by (auto simp add: main_loop_body_def Let_def then_do_def)

lemma body_effects_mapped:
  assumes "prev \<noteq> Some u" "tbl (uid_bytes_to_hex u) = Some track"
  shows "effects (main_loop_body tbl prev (Some u)) =
     [ReadPassiveTarget 500,
      Print [PStr ''Tag detected, UID ='', PStr (uid_bytes_to_hex u)],
      Print [PStr ''Playing track'', PInt track]]
     @ fst (play_track track) @ [Sleep 300]"
  using assms by (auto simp add: main_loop_body_def Let_def then_do_def play_track_raised)

lemma body_effects_arrival:
  assumes "prev \<noteq> Some u"
  shows "\<exists>es. effects (main_loop_body tbl prev (Some u)) =
            ReadPassiveTarget 500 # es @ [Sleep 300]
          \<and> Sleep 300 \<notin> set es
          \<and> Print [PStr ''Tag removed.''] \<notin> set es"
proof (cases "tbl (uid_bytes_to_hex u)")
  case None
  show ?thesis
    unfolding body_effects_unmapped [where tbl = tbl, OF assms None]
    by (rule exI [of _ "[Print [PStr ''Tag detected, UID ='', PStr (uid_bytes_to_hex u)],
      Print [PStr ''No track mapped for this UID yet. Add it to TAG_TO_TRACK.'']]"]) simp
next
  case (Some track)
  obtain f where f: "fst (play_track track) = [UartWrite f]"
    using play_track_frames by blast
  show ?thesis
    unfolding body_effects_mapped [where tbl = tbl, OF assms Some] f
    by (rule exI [of _ "[Print [PStr ''Tag detected, UID ='', PStr (uid_bytes_to_hex u)],
      Print [PStr ''Playing track'', PInt track], UartWrite f]"]) simp
qed

lemma body_effects_hd: "hd (effects (main_loop_body tbl prev uid)) = ReadPassiveTarget 500"
proof (cases uid)
  case None
  then show ?thesis
    by (cases prev) (simp_all add: body_effects_idle body_effects_removed)
next
  case (Some u)
  show ?thesis
  proof (cases "prev = Some u")
    case True
    then show ?thesis by (simp add: Some body_effects_same)
  next
    case False
    then show ?thesis
      using body_effects_arrival [of prev u tbl] by (auto simp add: Some)
  qed
qed

text \<open>What \<^verbatim>\<open>init_dfplayer\<close> sends before the loop starts: a reset and the volume.\<close>

lemma init_dfplayer_eq:
  "init_dfplayer =
     ([Print [PStr ''Initializing DFPlayer Mini over UART...''], Sleep 1000,
       UartWrite [0x7E, 0xFF, 0x06, 0x0C, 0x00, 0x00, 0x00, 0xFE, 0xEF, 0xEF], Sleep 1500,
       UartWrite [0x7E, 0xFF, 0x06, 0x06, 0x00, 0x00, 0x14, 0xFE, 0xE1, 0xEF], Sleep 100,
       Print [PStr ''DFPlayer ready at volume'', PInt 20]], None)"
  by (simp add: init_dfplayer_def DEFAULT_VOLUME_def reset_eq set_volume_eq then_do_def)

subsection \<open>The end-to-end scenario\<close>

text \<open>
  C3. With the table that maps exactly "04AABBCCDD11" to track 3, and the polls
  none, the tag 04 AA BB CC DD 11, the same tag again, none, the loop writes exactly one
  frame to the UART, namely 7E FF 06 03 00 00 03 FE F5 EF, and raises nothing.
\<close>

theorem end_to_end_scenario:
  "uart_frames (effects (main_loop [''04AABBCCDD11'' \<mapsto> 3] None
       [None, Some [0x04, 0xAA, 0xBB, 0xCC, 0xDD, 0x11],
        Some [0x04, 0xAA, 0xBB, 0xCC, 0xDD, 0x11], None]))
     = [[0x7E, 0xFF, 0x06, 0x03, 0x00, 0x00, 0x03, 0xFE, 0xF5, 0xEF]]
   \<and> raised (main_loop [''04AABBCCDD11'' \<mapsto> 3] None
       [None, Some [0x04, 0xAA, 0xBB, 0xCC, 0xDD, 0x11],
        Some [0x04, 0xAA, 0xBB, 0xCC, 0xDD, 0x11], None]) = None"
proof -
  have hex: "uid_bytes_to_hex [0x04, 0xAA, 0xBB, 0xCC, 0xDD, 0x11] = ''04AABBCCDD11''"
    by (simp add: uid_bytes_to_hex_def format_02X_def hex_digit_def)
  have arrive: "effects (main_loop_body [''04AABBCCDD11'' \<mapsto> 3] None
                  (Some [0x04, 0xAA, 0xBB, 0xCC, 0xDD, 0x11])) =
     [ReadPassiveTarget 500,
      Print [PStr ''Tag detected, UID ='', PStr ''04AABBCCDD11''],
      Print [PStr ''Playing track'', PInt 3],
      UartWrite [0x7E, 0xFF, 0x06, 0x03, 0x00, 0x00, 0x03, 0xFE, 0xF5, 0xEF],
      Sleep 300]"
    by (simp add: body_effects_mapped [of None _ _ 3] hex play_track_eq)
  show ?thesis
    by (simp add: main_loop_Cons main_loop_raised arrive body_effects_idle body_effects_same
        body_effects_removed del: main_loop.simps(2))
qed

subsection \<open>Debouncing\<close>

lemma seen_from_idle: "seen (tl (remdups_adj (None # polls))) = seen (remdups_adj polls)"
proof (cases polls)
  case Nil
  then show ?thesis by simp
next
  case (Cons p ps)
  show ?thesis
    unfolding Cons tl_remdups_adj_Cons
    by (simp add: seen_remdups_adj_Cons del: remdups_adj.simps)
qed

text \<open>
  C4. The loop signals at most one arrival per contiguous run of identical samples
  \<open>Some a\<close>. Started idle, the arrivals of any poll sequence are exactly the tags of
  the sequence with adjacent repetitions dropped, one per run. The events of a sequence
  are those of its segments in order, and a run of \<open>n\<close> samples \<open>Some a\<close>, consumed
  from whatever state, signals \<open>TagArrived a\<close> once, or nothing when \<open>a\<close> was
  already present or the run is empty. In particular the polls \<open>Some a\<close>,
  \<open>Some a\<close>, \<open>Some a\<close> from the idle state signal \<open>TagArrived a\<close> once and
  nothing else.
\<close>

theorem one_arrival_per_run:
  "arrivals (events (main_loop tbl None polls)) = seen (remdups_adj polls)
   \<and> events (main_loop tbl prev (pre @ replicate n (Some a) @ post)) =
       events (main_loop tbl prev pre)
       @ events (main_loop tbl (last_uid (main_loop tbl prev pre)) (replicate n (Some a)))
       @ events (main_loop tbl (last_uid (main_loop tbl prev (pre @ replicate n (Some a)))) post)
   \<and> events (main_loop tbl s (replicate n (Some a))) =
       (if n = 0 \<or> s = Some a then [] else [TagArrived a])
   \<and> length (arrivals (events (main_loop tbl s (replicate n (Some a))))) \<le> 1
   \<and> events (main_loop tbl None [Some a, Some a, Some a]) = [TagArrived a]"
proof (intro conjI)
  show "arrivals (events (main_loop tbl None polls)) = seen (remdups_adj polls)"
    by (simp only: arrivals_one_per_run seen_from_idle)
  have "events (main_loop tbl prev ((pre @ replicate n (Some a)) @ post)) =
      events (main_loop tbl prev (pre @ replicate n (Some a)))
      @ events (main_loop tbl (last_uid (main_loop tbl prev (pre @ replicate n (Some a)))) post)"
    by (rule main_loop_append)
  then show "events (main_loop tbl prev (pre @ replicate n (Some a) @ post)) =
       events (main_loop tbl prev pre)
       @ events (main_loop tbl (last_uid (main_loop tbl prev pre)) (replicate n (Some a)))
       @ events (main_loop tbl (last_uid (main_loop tbl prev (pre @ replicate n (Some a)))) post)"
    by (simp add: main_loop_append [of tbl prev pre])
  show "events (main_loop tbl s (replicate n (Some a))) =
       (if n = 0 \<or> s = Some a then [] else [TagArrived a])"
    by (rule replicate_run)
  show "length (arrivals (events (main_loop tbl s (replicate n (Some a))))) \<le> 1"
    by (simp add: replicate_run)
  have "events (main_loop tbl None (replicate 3 (Some a))) = [TagArrived a]"
    by (simp only: replicate_run) simp
  then show "events (main_loop tbl None [Some a, Some a, Some a]) = [TagArrived a]"
    by (simp add: numeral_3_eq_3 del: main_loop.simps(2))
qed

theorem one_arrival_per_run_witness:
  "arrivals (events (main_loop TAG_TO_TRACK None
       [Some [1], Some [1], None, None, Some [1], Some [2], Some [2]]))
     = [[1], [1], [2]]
   \<and> events (main_loop TAG_TO_TRACK None [Some [1], Some [1], Some [1]]) = [TagArrived [1]]"
  using one_arrival_per_run
    [of TAG_TO_TRACK "[Some [1], Some [1], None, None, Some [1], Some [2], Some [2]]"
        None "[]" 3 "[1]" "[]" None]
  by simp

text \<open>
  C5. From the idle state the polls \<open>Some a\<close>, none signal \<open>TagArrived a\<close> and then
  \<open>TagRemoved a\<close>, nothing else, and leave \<^verbatim>\<open>last_uid\<close> at none; the last thing the
  loop does is print the removal notice.
\<close>

theorem removal_detected:
  "events (main_loop tbl None [Some a, None]) = [TagArrived a, TagRemoved a]
   \<and> last_uid (main_loop tbl None [Some a, None]) = None
   \<and> raised (main_loop tbl None [Some a, None]) = None
   \<and> List.last (effects (main_loop tbl None [Some a, None])) = Print [PStr ''Tag removed.'']"
  by (simp add: main_loop_Cons main_loop_raised body_events body_effects_removed
      del: main_loop.simps(2))

theorem removal_detected_witness:
  "events (main_loop TAG_TO_TRACK None [Some [4, 170], None])
     = [TagArrived [4, 170], TagRemoved [4, 170]]
   \<and> last_uid (main_loop TAG_TO_TRACK None [Some [4, 170], None]) = None
   \<and> raised (main_loop TAG_TO_TRACK None [Some [4, 170], None]) = None
   \<and> List.last (effects (main_loop TAG_TO_TRACK None [Some [4, 170], None]))
       = Print [PStr ''Tag removed.'']"
  by (rule removal_detected)

text \<open>
  C6. From the idle state the polls \<open>Some a\<close>, \<open>Some b\<close> with \<open>a\<close> different from
  \<open>b\<close> signal \<open>TagArrived a\<close> and then \<open>TagArrived b\<close>, with no removal in
  between (no event and no removal notice), and leave \<^verbatim>\<open>last_uid\<close> at \<open>b\<close>.
\<close>

theorem swap_without_removal:
  assumes "a \<noteq> b"
  shows "events (main_loop tbl None [Some a, Some b]) = [TagArrived a, TagArrived b]
   \<and> last_uid (main_loop tbl None [Some a, Some b]) = Some b
   \<and> raised (main_loop tbl None [Some a, Some b]) = None
   \<and> Print [PStr ''Tag removed.''] \<notin> set (effects (main_loop tbl None [Some a, Some b]))"
proof -
  obtain es1 where es1:
    "effects (main_loop_body tbl None (Some a)) = ReadPassiveTarget 500 # es1 @ [Sleep 300]"
    "Print [PStr ''Tag removed.''] \<notin> set es1"
    using body_effects_arrival [of None a tbl] by auto
  obtain es2 where es2:
    "effects (main_loop_body tbl (Some a) (Some b)) = ReadPassiveTarget 500 # es2 @ [Sleep 300]"
    "Print [PStr ''Tag removed.''] \<notin> set es2"
    using body_effects_arrival [of "Some a" b tbl] assms by auto
  show ?thesis
    using assms es1(2) es2(2)
    by (simp add: main_loop_Cons main_loop_raised body_events es1(1) es2(1)
        del: main_loop.simps(2))
qed

theorem swap_without_removal_witness:
  "[1 :: byte] \<noteq> [2]
   \<and> events (main_loop TAG_TO_TRACK None [Some [1], Some [2]]) = [TagArrived [1], TagArrived [2]]
   \<and> last_uid (main_loop TAG_TO_TRACK None [Some [1], Some [2]]) = Some [2]
   \<and> raised (main_loop TAG_TO_TRACK None [Some [1], Some [2]]) = None
   \<and> Print [PStr ''Tag removed.'']
        \<notin> set (effects (main_loop TAG_TO_TRACK None [Some [1], Some [2]]))"
proof -
  have ne: "[1 :: byte] \<noteq> [2]" by simp
  show ?thesis
    using ne swap_without_removal [OF ne, of TAG_TO_TRACK] by blast
qed

subsection \<open>The debounce pause\<close>

text \<open>
  C7, as stated, fails: the pause is not applied in every iteration. Two polls that see
  no tag follow each other with nothing in between.
\<close>

theorem no_pause_between_polls_counterexample:
  "effects (main_loop TAG_TO_TRACK None [None, None]) =
     [ReadPassiveTarget 500, ReadPassiveTarget 500]"
  by (simp add: main_loop_Cons body_effects_idle del: main_loop.simps(2))

text \<open>
  C7, amended. Every iteration starts with the poll. An iteration in which a new tag is
  detected (mapped or not) ends with the debounce pause, which happens once, after the
  tag has been handled, so before the next poll. An iteration that sees no tag (whether
  or not one was present before) or the tag that is already present applies no pause.
\<close>

theorem debounce_pause_after_arrival:
  "(prev \<noteq> Some u \<longrightarrow>
      (\<exists>es. effects (main_loop_body tbl prev (Some u)) =
               ReadPassiveTarget 500 # es @ [Sleep 300]
            \<and> Sleep 300 \<notin> set es))
   \<and> Sleep 300 \<notin> set (effects (main_loop_body tbl prev None))
   \<and> Sleep 300 \<notin> set (effects (main_loop_body tbl (Some u) (Some u)))
   \<and> hd (effects (main_loop_body tbl prev uid)) = ReadPassiveTarget 500"
proof (intro conjI impI)
  assume "prev \<noteq> Some u"
  then show "\<exists>es. effects (main_loop_body tbl prev (Some u)) =
               ReadPassiveTarget 500 # es @ [Sleep 300]
            \<and> Sleep 300 \<notin> set es"
    using body_effects_arrival [of prev u tbl] by blast
next
  show "Sleep 300 \<notin> set (effects (main_loop_body tbl prev None))"
    by (cases prev) (simp_all add: body_effects_idle body_effects_removed)
next
  show "Sleep 300 \<notin> set (effects (main_loop_body tbl (Some u) (Some u)))"
    by (simp add: body_effects_same)
next
  show "hd (effects (main_loop_body tbl prev uid)) = ReadPassiveTarget 500"
    by (rule body_effects_hd)
qed

theorem debounce_pause_after_arrival_witness:
  "None \<noteq> Some [1 :: byte]
   \<and> (\<exists>es. effects (main_loop_body TAG_TO_TRACK None (Some [1])) =
               ReadPassiveTarget 500 # es @ [Sleep 300]
            \<and> Sleep 300 \<notin> set es)
   \<and> Sleep 300 \<notin> set (effects (main_loop_body TAG_TO_TRACK None None))
   \<and> Sleep 300 \<notin> set (effects (main_loop_body TAG_TO_TRACK (Some [1]) (Some [1])))"
proof -
  have ne: "None \<noteq> Some [1 :: byte]" by simp
  have "\<exists>es. effects (main_loop_body TAG_TO_TRACK None (Some [1])) =
               ReadPassiveTarget 500 # es @ [Sleep 300]
            \<and> Sleep 300 \<notin> set es"
    using debounce_pause_after_arrival [of None "[1]" TAG_TO_TRACK None] ne by blast
  moreover have "Sleep 300 \<notin> set (effects (main_loop_body TAG_TO_TRACK None None))"
    using debounce_pause_after_arrival [of None "[1]" TAG_TO_TRACK None] by blast
  moreover have "Sleep 300 \<notin> set (effects (main_loop_body TAG_TO_TRACK (Some [1]) (Some [1])))"
    using debounce_pause_after_arrival [of "Some [1]" "[1]" TAG_TO_TRACK None] by blast
  ultimately show ?thesis using ne by blast
qed

subsection \<open>Unmapped tags\<close>

text \<open>
  C8. When a new tag arrives whose hex UID has no entry in the table, the iteration
  signals the arrival, prints the detection and the "no track mapped" notices, pauses,
  writes no frame to the UART and raises nothing; \<^verbatim>\<open>last_uid\<close> is the tag, so the same
  tag at the next poll signals nothing and has no effect but the poll; and the loop goes
  on with the remaining polls.
\<close>

theorem unmapped_tag_is_noticed_only:
  assumes "prev \<noteq> Some u" "tbl (uid_bytes_to_hex u) = None"
  shows "events (main_loop_body tbl prev (Some u)) = [TagArrived u]
   \<and> effects (main_loop_body tbl prev (Some u)) =
       [ReadPassiveTarget 500,
        Print [PStr ''Tag detected, UID ='', PStr (uid_bytes_to_hex u)],
        Print [PStr ''No track mapped for this UID yet. Add it to TAG_TO_TRACK.''],
        Sleep 300]
   \<and> uart_frames (effects (main_loop_body tbl prev (Some u))) = []
   \<and> raised (main_loop_body tbl prev (Some u)) = None
   \<and> last_uid (main_loop_body tbl prev (Some u)) = Some u
   \<and> events (main_loop_body tbl (last_uid (main_loop_body tbl prev (Some u))) (Some u)) = []
   \<and> effects (main_loop_body tbl (last_uid (main_loop_body tbl prev (Some u))) (Some u))
       = [ReadPassiveTarget 500]
   \<and> effects (main_loop tbl prev (Some u # polls)) =
       effects (main_loop_body tbl prev (Some u)) @ effects (main_loop tbl (Some u) polls)"
  using assms
  by (simp add: body_events body_effects_unmapped [where tbl = tbl] body_raised body_last_uid
      body_effects_same main_loop_Cons del: main_loop.simps(2))

theorem unmapped_tag_is_noticed_only_witness:
  "None \<noteq> Some [0x04 :: byte, 0xAA]
   \<and> TAG_TO_TRACK (uid_bytes_to_hex [0x04, 0xAA]) = None
   \<and> events (main_loop_body TAG_TO_TRACK None (Some [0x04, 0xAA])) = [TagArrived [0x04, 0xAA]]
   \<and> effects (main_loop_body TAG_TO_TRACK None (Some [0x04, 0xAA])) =
       [ReadPassiveTarget 500,
        Print [PStr ''Tag detected, UID ='', PStr (uid_bytes_to_hex [0x04, 0xAA])],
        Print [PStr ''No track mapped for this UID yet. Add it to TAG_TO_TRACK.''],
        Sleep 300]
   \<and> uart_frames (effects (main_loop_body TAG_TO_TRACK None (Some [0x04, 0xAA]))) = []
   \<and> raised (main_loop_body TAG_TO_TRACK None (Some [0x04, 0xAA])) = None
   \<and> last_uid (main_loop_body TAG_TO_TRACK None (Some [0x04, 0xAA])) = Some [0x04, 0xAA]
   \<and> events (main_loop_body TAG_TO_TRACK
         (last_uid (main_loop_body TAG_TO_TRACK None (Some [0x04, 0xAA])))
         (Some [0x04, 0xAA])) = []
   \<and> effects (main_loop_body TAG_TO_TRACK
         (last_uid (main_loop_body TAG_TO_TRACK None (Some [0x04, 0xAA])))
         (Some [0x04, 0xAA])) = [ReadPassiveTarget 500]
   \<and> effects (main_loop TAG_TO_TRACK None [Some [0x04, 0xAA], None]) =
       effects (main_loop_body TAG_TO_TRACK None (Some [0x04, 0xAA]))
       @ effects (main_loop TAG_TO_TRACK (Some [0x04, 0xAA]) [None])"
proof -
  have ne: "None \<noteq> Some [0x04 :: byte, 0xAA]" by simp
  have un: "TAG_TO_TRACK (uid_bytes_to_hex [0x04, 0xAA]) = None"
    by (simp add: TAG_TO_TRACK_def)
  show ?thesis
    by (rule conjI [OF ne conjI [OF un
      unmapped_tag_is_noticed_only [where tbl = TAG_TO_TRACK and polls = "[None]", OF ne un]]])
qed

end
